theory Spec2Isabelle
  imports Main
begin

section \<open>Data model of package txx\<close>

text \<open>
  The package keeps the transaction in effect in a \<^verbatim>\<open>context.Context\<close>.
  \<^verbatim>\<open>*sql.Tx\<close> is a nullable pointer that the package only compares with nil and
  hands on: it is an optional address. \<^verbatim>\<open>*sql.TxOptions\<close> is a nullable
  pointer to a struct of two fields: it is an optional address too, and the structs
  live in a memory that the package reads when it decides and that the caller may
  write at any time. A pointer that is not nil always points to a struct, so the
  memory is total. The field \<^verbatim>\<open>Isolation\<close> has the Go type
  \<^verbatim>\<open>sql.IsolationLevel\<close>, an \<^verbatim>\<open>int\<close> that the package only compares, so no
  arithmetic can overflow.
\<close>

type_synonym sql_Tx = nat

record sql_TxOptions =
  Isolation :: int
  ReadOnly :: bool

type_synonym TxOptions_ptr = nat

type_synonym memory = "TxOptions_ptr \<Rightarrow> sql_TxOptions"

record Current =
  Tx :: "sql_Tx option"
  Opts :: "TxOptions_ptr option"

definition IsValid :: "Current \<Rightarrow> bool" where
  "IsValid c = (Tx c \<noteq> None)"

text \<open>The memory \<open>m\<close> is the one at the time of the call.\<close>

definition NewTransactionRequired :: "memory \<Rightarrow> Current \<Rightarrow> TxOptions_ptr option \<Rightarrow> bool" where
  "NewTransactionRequired m c opts =
     (if \<not> IsValid c then True
      else (case Opts c of
              None \<Rightarrow> opts \<noteq> None
            | Some held \<Rightarrow>
                (case opts of
                   None \<Rightarrow> True
                 | Some req \<Rightarrow>
                     if ReadOnly (m held) \<noteq> ReadOnly (m req) then True
                     else Isolation (m held) < Isolation (m req))))"

text \<open>
  \<^verbatim>\<open>ReadOnly()\<close> of the package returns the address of a new struct; this is the
  struct. The record field already has the name of the function.
\<close>

definition txx_ReadOnly :: sql_TxOptions where
  "txx_ReadOnly = \<lparr>Isolation = 0, ReadOnly = True\<rparr>"

section \<open>Contexts\<close>

text \<open>
  \<^verbatim>\<open>context.WithValue\<close> allocates a \<^verbatim>\<open>valueCtx\<close> that holds its parent,
  a key and a value, and \<^verbatim>\<open>Value\<close> walks the parents until a key matches.
  Contexts are objects behind an interface: a context is the address of a node in a
  store of contexts, and \<^verbatim>\<open>WithValue\<close> appends a node. A parent exists before
  its child is allocated, so a parent's address is below the child's; \<open>Value\<close>
  follows a parent link only downwards, and a link that does not point downwards
  (no Go program builds one) ends the walk.

  Keys and values are \<^verbatim>\<open>any\<close>. The key of the package has the unexported type
  \<^verbatim>\<open>key\<close>; every other key, and every value that is not a \<^verbatim>\<open>Current\<close>,
  is foreign to the package.
\<close>

datatype any_key = key int | foreign_key nat

definition ctxKey :: any_key where
  "ctxKey = key 0"

datatype any_val = current_val Current | foreign_val nat

type_synonym Context = nat

datatype ctx_node = emptyCtx | valueCtx Context any_key any_val

type_synonym ctx_store = "ctx_node list"

function Value :: "ctx_store \<Rightarrow> Context \<Rightarrow> any_key \<Rightarrow> any_val option" where
  "Value h c k =
     (if c < length h then
        (case h ! c of
           emptyCtx \<Rightarrow> None
         | valueCtx parent k' v \<Rightarrow>
             if k' = k then Some v
             else if parent < c then Value h parent k
             else None)
      else None)"
  by pat_completeness auto
termination
  by (relation "measure (\<lambda>(h, c, k). c)") auto

declare Value.simps [simp del]

definition WithValue :: "ctx_store \<Rightarrow> Context \<Rightarrow> any_key \<Rightarrow> any_val \<Rightarrow> Context \<times> ctx_store" where
  "WithValue h parent k v = (length h, h @ [valueCtx parent k v])"

definition Get :: "ctx_store \<Rightarrow> Context \<Rightarrow> Current" where
  "Get h ctx =
     (case Value h ctx ctxKey of
        Some (current_val result) \<Rightarrow> result
      | _ \<Rightarrow> \<lparr>Tx = None, Opts = None\<rparr>)"

definition Set :: "Context \<Rightarrow> sql_Tx option \<Rightarrow> TxOptions_ptr option \<Rightarrow> ctx_store
    \<Rightarrow> Context \<times> ctx_store" where
  "Set ctx tx opts h = WithValue h ctx ctxKey (current_val \<lparr>Tx = tx, Opts = opts\<rparr>)"

section \<open>The database, the work and their outcomes\<close>

text \<open>
  The world is the store of contexts, the memory of the option structs, and the state
  \<open>'d\<close> of everything outside the package (the database, the driver, whatever else
  the work touches). The three calls the package makes into \<^verbatim>\<open>database/sql\<close>
  are parameters: \<^verbatim>\<open>BeginTx\<close> gives an error or a non-nil transaction,
  \<^verbatim>\<open>Commit\<close> and \<^verbatim>\<open>Rollback\<close> give an error or nil.

  The work returns an error or nil, or panics. A panic carries the value that
  \<^verbatim>\<open>recover()\<close> hands to the deferred function. That value is nil when the work
  called \<^verbatim>\<open>panic(nil)\<close> and the runtime keeps nil panics (the setting
  \<^verbatim>\<open>panicnil=1\<close>, which main modules declaring Go 1.20 or older get by default);
  otherwise it is not nil.

  Every function of the package returns, beside its result and the new world, the
  calls it issued itself, in order.
\<close>

datatype error = Error string

datatype panic_value = PanicValue string

datatype outcome = Returned "error option" | Panicked "panic_value option"

record 'd world =
  ctxs :: ctx_store
  mem :: memory
  outside :: 'd

type_synonym 'd work = "Context \<Rightarrow> 'd world \<Rightarrow> outcome \<times> 'd world"

record 'd sql_DB =
  BeginTx :: "Context \<Rightarrow> TxOptions_ptr option \<Rightarrow> 'd world \<Rightarrow> (error + sql_Tx) \<times> 'd world"
  Commit :: "sql_Tx \<Rightarrow> 'd world \<Rightarrow> error option \<times> 'd world"
  Rollback :: "sql_Tx \<Rightarrow> 'd world \<Rightarrow> error option \<times> 'd world"

datatype call =
    CallBeginTx Context "TxOptions_ptr option"
  | CallWork Context
  | CallCommit sql_Tx
  | CallRollback sql_Tx

section \<open>Wrap and Ensure\<close>

text \<open>
  The deferred function of \<^verbatim>\<open>Wrap\<close>. It is given the value of \<^verbatim>\<open>recover()\<close>
  (nil when nothing panics, and nil for a nil panic) and the local variable
  \<^verbatim>\<open>err\<close>; it gives the panic it raises (if any), the value it leaves in
  \<^verbatim>\<open>err\<close>, and its calls.
\<close>

definition Wrap_deferred :: "'d sql_DB \<Rightarrow> sql_Tx \<Rightarrow> panic_value option \<Rightarrow> error option \<Rightarrow> 'd world
    \<Rightarrow> (panic_value option \<times> error option \<times> call list) \<times> 'd world" where
  "Wrap_deferred db tx recovered err w =
     (case recovered of
        Some p \<Rightarrow>
          (case Rollback db tx w of (_, w') \<Rightarrow> ((Some p, err, [CallRollback tx]), w'))
      | None \<Rightarrow>
          (case err of
             Some e \<Rightarrow>
               (case Rollback db tx w of (_, w') \<Rightarrow> ((None, err, [CallRollback tx]), w'))
           | None \<Rightarrow>
               (case Commit db tx w of (cerr, w') \<Rightarrow> ((None, cerr, [CallCommit tx]), w'))))"

text \<open>
  \<^verbatim>\<open>Wrap\<close> declares an unnamed result. \<^verbatim>\<open>return err\<close> copies \<^verbatim>\<open>err\<close> into
  the result and then runs the deferred function, which assigns to the local variable
  \<^verbatim>\<open>err\<close> only: the result is what \<^verbatim>\<open>err\<close> held at the \<^verbatim>\<open>return\<close>.
  When the work panics the assignment \<^verbatim>\<open>err = f(...)\<close> has not happened,
  \<^verbatim>\<open>err\<close> is still the nil of \<^verbatim>\<open>BeginTx\<close> and the result is still its zero
  value nil. The call of \<^verbatim>\<open>recover()\<close> ends the panic; \<open>Wrap\<close> panics only
  when the deferred function panics again, and returns otherwise.
\<close>

definition Wrap :: "'d sql_DB \<Rightarrow> Context \<Rightarrow> TxOptions_ptr option \<Rightarrow> 'd work \<Rightarrow> 'd world
    \<Rightarrow> (outcome \<times> call list) \<times> 'd world" where
  "Wrap db ctx opts f w0 =
     (case BeginTx db ctx opts w0 of
        (Inl e, w1) \<Rightarrow> ((Returned (Some e), [CallBeginTx ctx opts]), w1)
      | (Inr tx, w1) \<Rightarrow>
          (case Set ctx (Some tx) opts (ctxs w1) of
             (child, h) \<Rightarrow>
               (case f child (w1\<lparr>ctxs := h\<rparr>) of
                  (r, w3) \<Rightarrow>
                    (let recovered = (case r of Panicked p \<Rightarrow> p | Returned _ \<Rightarrow> None);
                         err = (case r of Panicked _ \<Rightarrow> None | Returned e \<Rightarrow> e);
                         result = err
                     in case Wrap_deferred db tx recovered err w3 of
                          ((raised, err', cs), w4) \<Rightarrow>
                            ((case raised of Some q \<Rightarrow> Panicked (Some q) | None \<Rightarrow> Returned result,
                              [CallBeginTx ctx opts, CallWork child] @ cs), w4)))))"

definition Ensure :: "'d sql_DB \<Rightarrow> Context \<Rightarrow> TxOptions_ptr option \<Rightarrow> 'd work \<Rightarrow> 'd world
    \<Rightarrow> (outcome \<times> call list) \<times> 'd world" where
  "Ensure db ctx opts f w =
     (let current = Get (ctxs w) ctx
      in if NewTransactionRequired (mem w) current opts then Wrap db ctx opts f w
         else (case f ctx w of (r, w') \<Rightarrow> ((r, [CallWork ctx]), w')))"

section \<open>Works and databases to run the package on\<close>

text \<open>
  The work \<^verbatim>\<open>func(ctx) error { return Ensure(ctx, db, opts, g) }\<close>: an
  \<open>Ensure\<close> nested in another call of the package. Its calls stay its own.
\<close>

definition Ensure_as_work :: "'d sql_DB \<Rightarrow> TxOptions_ptr option \<Rightarrow> 'd work \<Rightarrow> 'd work" where
  "Ensure_as_work db opts g ctx w = (case Ensure db ctx opts g w of ((r, cs), w') \<Rightarrow> (r, w'))"

text \<open>
  The work \<^verbatim>\<open>func(ctx) error { p.ReadOnly = true; return g(ctx) }\<close> of a caller
  that holds the pointer \<^verbatim>\<open>p\<close>.
\<close>

definition set_ReadOnly_then :: "TxOptions_ptr \<Rightarrow> 'd work \<Rightarrow> 'd work" where
  "set_ReadOnly_then p g ctx w = g ctx (w\<lparr>mem := (mem w)(p := (mem w p)\<lparr>ReadOnly := True\<rparr>)\<rparr>)"

text \<open>
  The three works of the package's tests, a work that panics with a value, and the
  work \<^verbatim>\<open>func(ctx) error { panic(nil) }\<close> under \<^verbatim>\<open>panicnil=1\<close>.
\<close>

definition checkTxExists :: "'d work" where
  "checkTxExists ctx w =
     (if \<not> IsValid (Get (ctxs w) ctx) then (Returned (Some (Error ''a transaction should exist'')), w)
      else (Returned None, w))"

definition checkTxEquals :: "sql_Tx option \<Rightarrow> 'd work" where
  "checkTxEquals tx ctx w =
     (let got = Tx (Get (ctxs w) ctx)
      in if got \<noteq> tx then (Returned (Some (Error ''expected tx'')), w)
         else (Returned None, w))"

definition fail :: "'d work" where
  "fail ctx w = (Returned (Some (Error ''test'')), w)"

definition panicking :: "'d work" where
  "panicking ctx w = (Panicked (Some (PanicValue ''boom'')), w)"

definition panicking_nil :: "'d work" where
  "panicking_nil ctx w = (Panicked None, w)"

text \<open>
  The databases answer every call with a fixed result and write the call into the
  outside state, so that the order of the effects can be read from the final world.
  The counting database numbers its transactions by the calls made so far.
\<close>

definition logging_db :: "(error + sql_Tx) \<Rightarrow> error option \<Rightarrow> error option \<Rightarrow> string list sql_DB" where
  "logging_db begun committed rolled_back =
     \<lparr>BeginTx = (\<lambda>ctx opts w. (begun, w\<lparr>outside := outside w @ [''BeginTx'']\<rparr>)),
      Commit = (\<lambda>tx w. (committed, w\<lparr>outside := outside w @ [''Commit'']\<rparr>)),
      Rollback = (\<lambda>tx w. (rolled_back, w\<lparr>outside := outside w @ [''Rollback'']\<rparr>))\<rparr>"

definition counting_db :: "string list sql_DB" where
  "counting_db =
     \<lparr>BeginTx = (\<lambda>ctx opts w. (Inr (length (outside w)), w\<lparr>outside := outside w @ [''BeginTx'']\<rparr>)),
      Commit = (\<lambda>tx w. (None, w\<lparr>outside := outside w @ [''Commit'']\<rparr>)),
      Rollback = (\<lambda>tx w. (None, w\<lparr>outside := outside w @ [''Rollback'']\<rparr>))\<rparr>"

text \<open>
  A memory: the struct of \<^verbatim>\<open>ReadOnly()\<close> at address 4, the isolation levels
  \<^verbatim>\<open>LevelReadCommitted\<close> (2) and \<^verbatim>\<open>LevelWriteCommitted\<close> (3) at addresses 2
  and 3, and the zero struct \<^verbatim>\<open>sql.TxOptions{}\<close> everywhere else.
\<close>

definition example_mem :: memory where
  "example_mem =
     (\<lambda>p. \<lparr>Isolation = 0, ReadOnly = False\<rparr>)
       (4 := txx_ReadOnly,
        2 := \<lparr>Isolation = 2, ReadOnly = False\<rparr>,
        3 := \<lparr>Isolation = 3, ReadOnly = False\<rparr>)"

text \<open>The world of \<^verbatim>\<open>context.Background()\<close> alone: one empty context, at address 0.\<close>

definition background_world :: "string list world" where
  "background_world = \<lparr>ctxs = [emptyCtx], mem = example_mem, outside = []\<rparr>"

section \<open>The decision rule\<close>

text \<open>
  Claim C5. For a valid carrier whose options are present and a request whose options
  are present, a new transaction is required exactly when the two read-only flags
  differ or the requested isolation level is strictly above the held one. In
  particular equal flags with a requested level at most the held level give reuse, and
  differing flags require a new transaction whatever the levels are. The flags and
  levels are those the two pointers hold in the memory at the time of the call.
\<close>

theorem NewTransactionRequired_both_present:
  assumes "IsValid c" and "Opts c = Some held"
  shows "(NewTransactionRequired m c (Some requested) \<longleftrightarrow>
            ReadOnly (m held) \<noteq> ReadOnly (m requested) \<or> Isolation (m held) < Isolation (m requested))
       \<and> (ReadOnly (m held) = ReadOnly (m requested) \<and> Isolation (m requested) \<le> Isolation (m held)
            \<longrightarrow> \<not> NewTransactionRequired m c (Some requested))
       \<and> (ReadOnly (m held) \<noteq> ReadOnly (m requested) \<longrightarrow> NewTransactionRequired m c (Some requested))"
  using assms by (auto simp: NewTransactionRequired_def)

theorem NewTransactionRequired_both_present_witness:
  "IsValid \<lparr>Tx = Some 7, Opts = Some 2\<rparr>
   \<and> NewTransactionRequired example_mem \<lparr>Tx = Some 7, Opts = Some 2\<rparr> (Some 3)
   \<and> \<not> NewTransactionRequired example_mem \<lparr>Tx = Some 7, Opts = Some 2\<rparr> (Some 2)
   \<and> \<not> NewTransactionRequired example_mem \<lparr>Tx = Some 7, Opts = Some 2\<rparr> (Some 0)
   \<and> NewTransactionRequired example_mem \<lparr>Tx = Some 7, Opts = Some 2\<rparr> (Some 4)"
proof -
  let ?c = "\<lparr>Tx = Some 7, Opts = Some 2\<rparr>"
  have v: "IsValid ?c" by (simp add: IsValid_def)
  have o: "Opts ?c = Some 2" by simp
  have m: "example_mem 0 = \<lparr>Isolation = 0, ReadOnly = False\<rparr>"
      "example_mem 4 = \<lparr>Isolation = 0, ReadOnly = True\<rparr>"
      "example_mem 2 = \<lparr>Isolation = 2, ReadOnly = False\<rparr>"
      "example_mem 3 = \<lparr>Isolation = 3, ReadOnly = False\<rparr>"
    by (simp_all add: example_mem_def txx_ReadOnly_def)
  show ?thesis
    using v NewTransactionRequired_both_present [OF v o, of example_mem 3]
      NewTransactionRequired_both_present [OF v o, of example_mem 2]
      NewTransactionRequired_both_present [OF v o, of example_mem 0]
      NewTransactionRequired_both_present [OF v o, of example_mem 4]
    by (simp add: m)
qed

text \<open>
  Claim C6. A carrier without a transaction is invalid whatever its options are, and
  it requires a new transaction for every request, the nil request included.
\<close>

theorem NewTransactionRequired_invalid:
  assumes "Tx c = None"
  shows "\<not> IsValid c \<and> NewTransactionRequired m c opts"
  using assms by (simp add: IsValid_def NewTransactionRequired_def)

theorem NewTransactionRequired_invalid_witness:
  "Tx \<lparr>Tx = None, Opts = Some 4\<rparr> = None
   \<and> \<not> IsValid \<lparr>Tx = None, Opts = Some 4\<rparr>
   \<and> NewTransactionRequired example_mem \<lparr>Tx = None, Opts = Some 4\<rparr> None
   \<and> NewTransactionRequired example_mem \<lparr>Tx = None, Opts = Some 4\<rparr> (Some 4)"
proof -
  have t: "Tx \<lparr>Tx = None, Opts = Some 4\<rparr> = None" by simp
  show ?thesis
    using t NewTransactionRequired_invalid [OF t, of example_mem None]
      NewTransactionRequired_invalid [OF t, of example_mem "Some 4"]
    by simp
qed

text \<open>
  Claim C7. For a valid carrier: held options nil and requested options present
  require a new transaction; held options present and requested options nil require
  one; both nil do not.
\<close>

theorem NewTransactionRequired_one_sided_nil:
  assumes "IsValid c"
  shows "(Opts c = None \<and> requested \<noteq> None \<longrightarrow> NewTransactionRequired m c requested)
       \<and> (Opts c \<noteq> None \<and> requested = None \<longrightarrow> NewTransactionRequired m c requested)
       \<and> (Opts c = None \<and> requested = None \<longrightarrow> \<not> NewTransactionRequired m c requested)"
  using assms by (auto simp: NewTransactionRequired_def split: option.splits)

theorem NewTransactionRequired_one_sided_nil_witness:
  "IsValid \<lparr>Tx = Some 7, Opts = None\<rparr>
   \<and> NewTransactionRequired example_mem \<lparr>Tx = Some 7, Opts = None\<rparr> (Some 4)
   \<and> \<not> NewTransactionRequired example_mem \<lparr>Tx = Some 7, Opts = None\<rparr> None
   \<and> IsValid \<lparr>Tx = Some 7, Opts = Some 4\<rparr>
   \<and> NewTransactionRequired example_mem \<lparr>Tx = Some 7, Opts = Some 4\<rparr> None"
proof -
  have v: "IsValid \<lparr>Tx = Some 7, Opts = None\<rparr>" by (simp add: IsValid_def)
  have v': "IsValid \<lparr>Tx = Some 7, Opts = Some 4\<rparr>" by (simp add: IsValid_def)
  show ?thesis
    using v v' NewTransactionRequired_one_sided_nil [OF v, of "Some 4" example_mem]
      NewTransactionRequired_one_sided_nil [OF v, of None example_mem]
      NewTransactionRequired_one_sided_nil [OF v', of None example_mem]
    by simp
qed

section \<open>Contexts are not changed by Set\<close>

text \<open>Allocating nodes leaves every walk that starts in the old store as it was.\<close>

lemma Value_append:
  "c < length h \<Longrightarrow> Value (h @ ns) c k = Value h c k"
proof (induction c rule: less_induct)
  case (less c)
  have "Value (h @ ns) c k =
      (case h ! c of
         emptyCtx \<Rightarrow> None
       | valueCtx parent k' v \<Rightarrow>
           if k' = k then Some v else if parent < c then Value (h @ ns) parent k else None)"
    using less.prems by (subst Value.simps) (simp add: nth_append)
  also have "\<dots> =
      (case h ! c of
         emptyCtx \<Rightarrow> None
       | valueCtx parent k' v \<Rightarrow>
           if k' = k then Some v else if parent < c then Value h parent k else None)"
    using less by (auto split: ctx_node.splits)
  also have "\<dots> = Value h c k"
    using less.prems by (subst (2) Value.simps) simp
  finally show ?case .
qed

lemma Value_WithValue_new:
  "WithValue h parent k v = (c, h') \<Longrightarrow> Value h' c k = Some v"
  by (subst Value.simps) (auto simp: WithValue_def)

lemma Get_append:
  "c < length h \<Longrightarrow> Get (h @ ns) c = Get h c"
  by (simp add: Get_def Value_append)

lemma Get_Set_new:
  "Set ctx tx opts h = (child, h') \<Longrightarrow> Get h' child = \<lparr>Tx = tx, Opts = opts\<rparr>"
  by (simp add: Get_def Set_def Value_WithValue_new)

lemma Get_Set_old:
  "Set ctx tx opts h = (child, h') \<Longrightarrow> c < length h \<Longrightarrow> Get h' c = Get h c"
  by (auto simp: Set_def WithValue_def Get_append)

text \<open>
  Claim C8. In the store left by \<open>Set ctx tx opts\<close>, \<open>Get\<close> of the new context is
  the carrier of exactly \<open>tx\<close> and \<open>opts\<close>, and \<open>Get\<close> of the original context is
  what it was in the store before: the empty, invalid carrier when the original
  context carried none. The original context is a context of the store, as every
  context a Go program holds is.
\<close>

theorem Get_Set_roundtrip:
  assumes "Set ctx tx opts h = (child, h')" and "ctx < length h"
  shows "Get h' child = \<lparr>Tx = tx, Opts = opts\<rparr>
       \<and> Get h' ctx = Get h ctx
       \<and> (Value h ctx ctxKey = None \<longrightarrow> Get h' ctx = \<lparr>Tx = None, Opts = None\<rparr> \<and> \<not> IsValid (Get h' ctx))"
proof -
  have new: "Get h' child = \<lparr>Tx = tx, Opts = opts\<rparr>"
    using assms(1) by (rule Get_Set_new)
  have old: "Get h' ctx = Get h ctx"
    using assms by (rule Get_Set_old)
  have "Get h ctx = \<lparr>Tx = None, Opts = None\<rparr> \<and> \<not> IsValid (Get h ctx)" if "Value h ctx ctxKey = None"
    using that by (simp add: Get_def IsValid_def)
  with new old show ?thesis by (simp add: IsValid_def)
qed

theorem Get_Set_roundtrip_witness:
  "Set 1 (Some 7) (Some 4) [emptyCtx, valueCtx 0 ctxKey (current_val \<lparr>Tx = Some 3, Opts = None\<rparr>)]
     = (2, [emptyCtx, valueCtx 0 ctxKey (current_val \<lparr>Tx = Some 3, Opts = None\<rparr>),
            valueCtx 1 ctxKey (current_val \<lparr>Tx = Some 7, Opts = Some 4\<rparr>)])
   \<and> Get [emptyCtx, valueCtx 0 ctxKey (current_val \<lparr>Tx = Some 3, Opts = None\<rparr>),
            valueCtx 1 ctxKey (current_val \<lparr>Tx = Some 7, Opts = Some 4\<rparr>)] 2
       = \<lparr>Tx = Some 7, Opts = Some 4\<rparr>
   \<and> Get [emptyCtx, valueCtx 0 ctxKey (current_val \<lparr>Tx = Some 3, Opts = None\<rparr>),
            valueCtx 1 ctxKey (current_val \<lparr>Tx = Some 7, Opts = Some 4\<rparr>)] 1
       = \<lparr>Tx = Some 3, Opts = None\<rparr>
   \<and> Set 0 None None [emptyCtx] = (1, [emptyCtx, valueCtx 0 ctxKey (current_val \<lparr>Tx = None, Opts = None\<rparr>)])
   \<and> Value [emptyCtx] 0 ctxKey = None
   \<and> Get [emptyCtx, valueCtx 0 ctxKey (current_val \<lparr>Tx = None, Opts = None\<rparr>)] 0 = \<lparr>Tx = None, Opts = None\<rparr>"
proof -
  let ?h = "[emptyCtx, valueCtx 0 ctxKey (current_val \<lparr>Tx = Some 3, Opts = None\<rparr>)]"
  let ?h' = "?h @ [valueCtx 1 ctxKey (current_val \<lparr>Tx = Some 7, Opts = Some 4\<rparr>)]"
  have s: "Set 1 (Some 7) (Some 4) ?h = (2, ?h')"
    by (simp add: Set_def WithValue_def)
  have l: "(1::nat) < length ?h" by simp
  have g: "Get ?h 1 = \<lparr>Tx = Some 3, Opts = None\<rparr>"
    by (simp add: Get_def Value.simps ctxKey_def)
  have s0: "Set 0 None None [emptyCtx] = (1, [emptyCtx, valueCtx 0 ctxKey (current_val \<lparr>Tx = None, Opts = None\<rparr>)])"
    by (simp add: Set_def WithValue_def)
  have l0: "(0::nat) < length [emptyCtx]" by simp
  have v0: "Value [emptyCtx] 0 ctxKey = None"
    by (simp add: Value.simps)
  have r: "Get ?h' 2 = \<lparr>Tx = Some 7, Opts = Some 4\<rparr> \<and> Get ?h' 1 = Get ?h 1"
    using Get_Set_roundtrip [OF s l] by blast
  have r0: "Get [emptyCtx, valueCtx 0 ctxKey (current_val \<lparr>Tx = None, Opts = None\<rparr>)] 0
      = \<lparr>Tx = None, Opts = None\<rparr>"
    using Get_Set_roundtrip [OF s0 l0] v0 by blast
  from s g s0 v0 r r0 show ?thesis
    by (simp del: One_nat_def)
qed

section \<open>The lifecycle of Wrap\<close>

text \<open>Once \<^verbatim>\<open>BeginTx\<close> has succeeded, \<open>Wrap\<close> is the work followed by the deferred function.\<close>

lemma Wrap_begun:
  assumes "BeginTx db ctx opts w0 = (Inr tx, w1)"
    and "Set ctx (Some tx) opts (ctxs w1) = (child, h)"
    and "f child (w1\<lparr>ctxs := h\<rparr>) = (r, w3)"
    and "Wrap_deferred db tx (case r of Panicked p \<Rightarrow> p | Returned _ \<Rightarrow> None)
           (case r of Panicked _ \<Rightarrow> None | Returned e \<Rightarrow> e) w3 = ((raised, err', cs), w4)"
  shows "Wrap db ctx opts f w0 =
           ((case raised of Some q \<Rightarrow> Panicked (Some q)
             | None \<Rightarrow> Returned (case r of Panicked _ \<Rightarrow> None | Returned e \<Rightarrow> e),
             [CallBeginTx ctx opts, CallWork child] @ cs), w4)"
  using assms by (simp add: Wrap_def Let_def)

lemma Wrap_work_succeeds:
  assumes "BeginTx db ctx opts w0 = (Inr tx, w1)"
    and "Set ctx (Some tx) opts (ctxs w1) = (child, h)"
    and "f child (w1\<lparr>ctxs := h\<rparr>) = (Returned None, w3)"
    and "Commit db tx w3 = (commit_err, w4)"
  shows "Wrap db ctx opts f w0 =
           ((Returned None, [CallBeginTx ctx opts, CallWork child, CallCommit tx]), w4)"
proof -
  have "Wrap_deferred db tx None None w3 = ((None, commit_err, [CallCommit tx]), w4)"
    using assms(4) by (simp add: Wrap_deferred_def)
  with assms(1-3) show ?thesis
    using Wrap_begun [of db ctx opts w0 tx w1 child h f "Returned None" w3] by simp
qed

text \<open>
  Claim C1. When the work returns nil, \<open>Wrap\<close> issues \<^verbatim>\<open>Commit\<close> once and no
  \<^verbatim>\<open>Rollback\<close> (lemma \<open>Wrap_work_succeeds\<close>), and the claim has it return the
  failure of a failing commit. The code returns nil there: on the background context,
  with a database whose \<^verbatim>\<open>BeginTx\<close> gives transaction 5 and whose \<^verbatim>\<open>Commit\<close>
  fails, and with the work \<open>checkTxExists\<close>, the commit is issued, it answers
  \<open>commit failed\<close>, and \<open>Wrap\<close> returns nil.
\<close>

theorem Wrap_commit_failure_dropped:
  "Commit (logging_db (Inr 5) (Some (Error ''commit failed'')) None) 5
       \<lparr>ctxs = [emptyCtx, valueCtx 0 ctxKey (current_val \<lparr>Tx = Some 5, Opts = None\<rparr>)],
        mem = example_mem, outside = [''BeginTx'']\<rparr>
     = (Some (Error ''commit failed''),
        \<lparr>ctxs = [emptyCtx, valueCtx 0 ctxKey (current_val \<lparr>Tx = Some 5, Opts = None\<rparr>)],
         mem = example_mem, outside = [''BeginTx'', ''Commit'']\<rparr>)
   \<and> Wrap (logging_db (Inr 5) (Some (Error ''commit failed'')) None) 0 None checkTxExists background_world
     = ((Returned None, [CallBeginTx 0 None, CallWork 1, CallCommit 5]),
        \<lparr>ctxs = [emptyCtx, valueCtx 0 ctxKey (current_val \<lparr>Tx = Some 5, Opts = None\<rparr>)],
         mem = example_mem, outside = [''BeginTx'', ''Commit'']\<rparr>)"
  by (simp add: Wrap_def Wrap_deferred_def logging_db_def background_world_def Set_def WithValue_def
      checkTxExists_def Get_def Value.simps IsValid_def)

text \<open>
  Claim C2. When the work returns an error, \<open>Wrap\<close> issues \<^verbatim>\<open>Rollback\<close> and no
  \<^verbatim>\<open>Commit\<close>, and returns the error of the work itself, whatever the rollback
  answers.
\<close>

theorem Wrap_work_error:
  assumes "BeginTx db ctx opts w0 = (Inr tx, w1)"
    and "Set ctx (Some tx) opts (ctxs w1) = (child, h)"
    and "f child (w1\<lparr>ctxs := h\<rparr>) = (Returned (Some e), w3)"
    and "Rollback db tx w3 = (rollback_err, w4)"
  shows "Wrap db ctx opts f w0 =
           ((Returned (Some e), [CallBeginTx ctx opts, CallWork child, CallRollback tx]), w4)"
proof -
  have "Wrap_deferred db tx None (Some e) w3 = ((None, Some e, [CallRollback tx]), w4)"
    using assms(4) by (simp add: Wrap_deferred_def)
  with assms(1-3) show ?thesis
    using Wrap_begun [of db ctx opts w0 tx w1 child h f "Returned (Some e)" w3] by simp
qed

theorem Wrap_work_error_witness:
  "Rollback (logging_db (Inr 5) None (Some (Error ''rollback failed''))) 5
       \<lparr>ctxs = [emptyCtx, valueCtx 0 ctxKey (current_val \<lparr>Tx = Some 5, Opts = None\<rparr>)],
        mem = example_mem, outside = [''BeginTx'']\<rparr>
     = (Some (Error ''rollback failed''),
        \<lparr>ctxs = [emptyCtx, valueCtx 0 ctxKey (current_val \<lparr>Tx = Some 5, Opts = None\<rparr>)],
         mem = example_mem, outside = [''BeginTx'', ''Rollback'']\<rparr>)
   \<and> Wrap (logging_db (Inr 5) None (Some (Error ''rollback failed''))) 0 None fail background_world
     = ((Returned (Some (Error ''test'')), [CallBeginTx 0 None, CallWork 1, CallRollback 5]),
        \<lparr>ctxs = [emptyCtx, valueCtx 0 ctxKey (current_val \<lparr>Tx = Some 5, Opts = None\<rparr>)],
         mem = example_mem, outside = [''BeginTx'', ''Rollback'']\<rparr>)"
proof -
  let ?db = "logging_db (Inr 5) None (Some (Error ''rollback failed''))"
  let ?h = "[emptyCtx, valueCtx 0 ctxKey (current_val \<lparr>Tx = Some 5, Opts = None\<rparr>)]"
  let ?w1 = "\<lparr>ctxs = [emptyCtx], mem = example_mem, outside = [''BeginTx'']\<rparr>"
  let ?w3 = "\<lparr>ctxs = ?h, mem = example_mem, outside = [''BeginTx'']\<rparr>"
  let ?w4 = "\<lparr>ctxs = ?h, mem = example_mem, outside = [''BeginTx'', ''Rollback'']\<rparr>"
  have b: "BeginTx ?db 0 None background_world = (Inr 5, ?w1)"
    by (simp add: logging_db_def background_world_def)
  have s: "Set 0 (Some 5) None (ctxs ?w1) = (1, ?h)"
    by (simp add: Set_def WithValue_def)
  have f: "fail 1 (?w1\<lparr>ctxs := ?h\<rparr>) = (Returned (Some (Error ''test'')), ?w3)"
    by (simp add: fail_def)
  have r: "Rollback ?db 5 ?w3 = (Some (Error ''rollback failed''), ?w4)"
    by (simp add: logging_db_def)
  from r Wrap_work_error [where f = fail, OF b s f r] show ?thesis
    by (rule conjI)
qed

text \<open>
  A panic whose value \<^verbatim>\<open>recover()\<close> gives as not nil is answered by
  \<^verbatim>\<open>Rollback\<close> and raised again with the same value.
\<close>

lemma Wrap_panic_with_value:
  assumes "BeginTx db ctx opts w0 = (Inr tx, w1)"
    and "Set ctx (Some tx) opts (ctxs w1) = (child, h)"
    and "f child (w1\<lparr>ctxs := h\<rparr>) = (Panicked (Some p), w3)"
    and "Rollback db tx w3 = (rollback_err, w4)"
  shows "Wrap db ctx opts f w0 =
           ((Panicked (Some p), [CallBeginTx ctx opts, CallWork child, CallRollback tx]), w4)"
proof -
  have "Wrap_deferred db tx (Some p) None w3 = ((Some p, None, [CallRollback tx]), w4)"
    using assms(4) by (simp add: Wrap_deferred_def)
  with assms(1-3) show ?thesis
    using Wrap_begun [of db ctx opts w0 tx w1 child h f "Panicked (Some p)" w3] by simp
qed

text \<open>
  A nil panic is not seen by the deferred function: \<^verbatim>\<open>recover()\<close> gives nil and
  \<^verbatim>\<open>err\<close> is nil, so the transaction is committed and \<open>Wrap\<close> returns nil.
\<close>

lemma Wrap_panic_nil:
  assumes "BeginTx db ctx opts w0 = (Inr tx, w1)"
    and "Set ctx (Some tx) opts (ctxs w1) = (child, h)"
    and "f child (w1\<lparr>ctxs := h\<rparr>) = (Panicked None, w3)"
    and "Commit db tx w3 = (commit_err, w4)"
  shows "Wrap db ctx opts f w0 =
           ((Returned None, [CallBeginTx ctx opts, CallWork child, CallCommit tx]), w4)"
proof -
  have "Wrap_deferred db tx None None w3 = ((None, commit_err, [CallCommit tx]), w4)"
    using assms(4) by (simp add: Wrap_deferred_def)
  with assms(1-3) show ?thesis
    using Wrap_begun [of db ctx opts w0 tx w1 child h f "Panicked None" w3] by simp
qed

text \<open>
  Claim C3. The claim has \<open>Wrap\<close> answer every panic of the work by
  \<^verbatim>\<open>Rollback\<close> and by the same panic. The code does so when the value of the
  panic is not nil (lemma \<open>Wrap_panic_with_value\<close>). For the work that calls
  \<^verbatim>\<open>panic(nil)\<close> where the runtime keeps nil panics, on the background context
  and a database whose \<^verbatim>\<open>BeginTx\<close> gives transaction 5, the code issues
  \<^verbatim>\<open>Commit\<close> and no \<^verbatim>\<open>Rollback\<close>, and \<open>Wrap\<close> returns nil instead of
  panicking.
\<close>

theorem Wrap_nil_panic_commits:
  "panicking_nil 1
       \<lparr>ctxs = [emptyCtx, valueCtx 0 ctxKey (current_val \<lparr>Tx = Some 5, Opts = None\<rparr>)],
        mem = example_mem, outside = [''BeginTx'']\<rparr>
     = (Panicked None,
        \<lparr>ctxs = [emptyCtx, valueCtx 0 ctxKey (current_val \<lparr>Tx = Some 5, Opts = None\<rparr>)],
         mem = example_mem, outside = [''BeginTx'']\<rparr>)
   \<and> Wrap (logging_db (Inr 5) None None) 0 None panicking_nil background_world
     = ((Returned None, [CallBeginTx 0 None, CallWork 1, CallCommit 5]),
        \<lparr>ctxs = [emptyCtx, valueCtx 0 ctxKey (current_val \<lparr>Tx = Some 5, Opts = None\<rparr>)],
         mem = example_mem, outside = [''BeginTx'', ''Commit'']\<rparr>)"
  by (simp add: Wrap_def Wrap_deferred_def logging_db_def background_world_def Set_def WithValue_def
      panicking_nil_def)

text \<open>
  Claim C4. When \<^verbatim>\<open>BeginTx\<close> fails, \<open>Wrap\<close> returns that failure, its only call
  is the \<^verbatim>\<open>BeginTx\<close> (the work is not invoked, and neither \<^verbatim>\<open>Commit\<close> nor
  \<^verbatim>\<open>Rollback\<close> is issued), and the world is as \<^verbatim>\<open>BeginTx\<close> left it.
\<close>

theorem Wrap_begin_fails:
  assumes "BeginTx db ctx opts w0 = (Inl e, w1)"
  shows "Wrap db ctx opts f w0 = ((Returned (Some e), [CallBeginTx ctx opts]), w1)"
  using assms by (simp add: Wrap_def)

theorem Wrap_begin_fails_witness:
  "BeginTx (logging_db (Inl (Error ''no connection'')) None None) 0 (Some 4) background_world
     = (Inl (Error ''no connection''), \<lparr>ctxs = [emptyCtx], mem = example_mem, outside = [''BeginTx'']\<rparr>)
   \<and> Wrap (logging_db (Inl (Error ''no connection'')) None None) 0 (Some 4) checkTxExists background_world
     = ((Returned (Some (Error ''no connection'')), [CallBeginTx 0 (Some 4)]),
        \<lparr>ctxs = [emptyCtx], mem = example_mem, outside = [''BeginTx'']\<rparr>)"
proof -
  have b: "BeginTx (logging_db (Inl (Error ''no connection'')) None None) 0 (Some 4) background_world
     = (Inl (Error ''no connection''), \<lparr>ctxs = [emptyCtx], mem = example_mem, outside = [''BeginTx'']\<rparr>)"
    by (simp add: logging_db_def background_world_def)
  from b Wrap_begin_fails [OF b, of checkTxExists] show ?thesis
    by (rule conjI)
qed

section \<open>Reuse in Ensure\<close>

text \<open>
  A valid carrier never requires a new transaction for the pointer it holds, whatever
  the memory is, nor for a pointer to a struct equal to the one it points to; and an
  \<open>Ensure\<close> that requires none is its work alone.
\<close>

lemma NewTransactionRequired_own_options:
  "IsValid c \<Longrightarrow> \<not> NewTransactionRequired m c (Opts c)"
  by (simp add: NewTransactionRequired_def split: option.splits)

lemma NewTransactionRequired_equal_struct:
  "IsValid c \<Longrightarrow> Opts c = Some p \<Longrightarrow> m q = m p \<Longrightarrow> \<not> NewTransactionRequired m c (Some q)"
  by (simp add: NewTransactionRequired_def)

lemma Ensure_no_new_transaction:
  "\<not> NewTransactionRequired (mem w) (Get (ctxs w) ctx) opts \<Longrightarrow>
   Ensure db ctx opts f w = ((fst (f ctx w), [CallWork ctx]), snd (f ctx w))"
  by (simp add: Ensure_def split: prod.split)

text \<open>
  Claim C9. When the carrier of the context does not require a new transaction for the
  requested options, \<open>Ensure\<close> calls the work once, on the context and the world it
  was given, and returns the work's outcome and world; it makes no other call, so no
  transaction is opened and the work reads the same carrier as the caller.
\<close>

theorem Ensure_reuses:
  assumes "\<not> NewTransactionRequired (mem w) (Get (ctxs w) ctx) opts"
  shows "Ensure db ctx opts f w = ((fst (f ctx w), [CallWork ctx]), snd (f ctx w))"
  using assms by (simp add: Ensure_def split: prod.split)

theorem Ensure_reuses_witness:
  "\<not> NewTransactionRequired example_mem
       (Get (ctxs \<lparr>ctxs = [emptyCtx, valueCtx 0 ctxKey (current_val \<lparr>Tx = Some 7, Opts = None\<rparr>)],
                  mem = example_mem, outside = []\<rparr>) 1) None
   \<and> Ensure (logging_db (Inr 5) None None) 1 None (checkTxEquals (Some 7))
       \<lparr>ctxs = [emptyCtx, valueCtx 0 ctxKey (current_val \<lparr>Tx = Some 7, Opts = None\<rparr>)],
        mem = example_mem, outside = []\<rparr>
     = ((Returned None, [CallWork 1]),
        \<lparr>ctxs = [emptyCtx, valueCtx 0 ctxKey (current_val \<lparr>Tx = Some 7, Opts = None\<rparr>)],
         mem = example_mem, outside = []\<rparr>)"
proof -
  let ?w = "\<lparr>ctxs = [emptyCtx, valueCtx 0 ctxKey (current_val \<lparr>Tx = Some 7, Opts = None\<rparr>)],
             mem = example_mem, outside = [] :: string list\<rparr>"
  have n: "\<not> NewTransactionRequired (mem ?w) (Get (ctxs ?w) 1) None"
    by (simp add: Get_def Value.simps NewTransactionRequired_def IsValid_def)
  have f: "checkTxEquals (Some 7) 1 ?w = (Returned None, ?w)"
    by (simp add: checkTxEquals_def Get_def Value.simps)
  from n Ensure_reuses [OF n, of "logging_db (Inr 5) None None" "checkTxEquals (Some 7)"] f
  show ?thesis by simp
qed

text \<open>
  The carrier of the child context of \<open>Wrap\<close> is valid and holds the pointer of the
  call, so an \<open>Ensure\<close> with this pointer, run as the work, adds nothing to it.
\<close>

lemma installed_carrier_reusable:
  assumes "Set ctx (Some tx) opts h = (child, h')"
  shows "\<not> NewTransactionRequired m (Get h' child) opts"
proof -
  have "Get h' child = \<lparr>Tx = Some tx, Opts = opts\<rparr>"
    using assms by (rule Get_Set_new)
  then show ?thesis
    using NewTransactionRequired_own_options [of "\<lparr>Tx = Some tx, Opts = opts\<rparr>" m]
    by (simp add: IsValid_def)
qed

lemma nested_Ensure_is_work:
  assumes "\<not> NewTransactionRequired (mem w) (Get (ctxs w) ctx) opts"
  shows "Ensure_as_work db opts g ctx w = g ctx w"
  using Ensure_no_new_transaction [OF assms, of db g] by (simp add: Ensure_as_work_def)

lemma Wrap_nested_Ensure:
  "Wrap db ctx opts (Ensure_as_work db opts g) w0 = Wrap db ctx opts g w0"
proof (cases "BeginTx db ctx opts w0")
  case (Pair b w1)
  show ?thesis
  proof (cases b)
    case (Inl e)
    with Pair show ?thesis by (simp add: Wrap_def)
  next
    case (Inr tx)
    obtain child h' where s: "Set ctx (Some tx) opts (ctxs w1) = (child, h')"
      by (cases "Set ctx (Some tx) opts (ctxs w1)")
    have "\<not> NewTransactionRequired (mem (w1\<lparr>ctxs := h'\<rparr>)) (Get (ctxs (w1\<lparr>ctxs := h'\<rparr>)) child) opts"
      using installed_carrier_reusable [OF s] by simp
    then have "Ensure_as_work db opts g child (w1\<lparr>ctxs := h'\<rparr>) = g child (w1\<lparr>ctxs := h'\<rparr>)"
      by (rule nested_Ensure_is_work)
    with Pair Inr s show ?thesis by (simp add: Wrap_def)
  qed
qed

lemma Ensure_nested_Ensure:
  "Ensure db ctx opts (Ensure_as_work db opts g) w0 = Ensure db ctx opts g w0"
proof (cases "NewTransactionRequired (mem w0) (Get (ctxs w0) ctx) opts")
  case True
  then show ?thesis by (simp add: Ensure_def Wrap_nested_Ensure)
next
  case False
  then show ?thesis
    by (simp add: Ensure_no_new_transaction nested_Ensure_is_work)
qed

text \<open>
  Claim C10, as stated, fails. A transaction is opened with the pointer 0, whose struct
  is the zero struct; the work sets \<^verbatim>\<open>ReadOnly\<close> in that struct and then calls
  \<open>Ensure\<close> with the pointer 6, whose struct is the zero struct the transaction was
  opened with. The carrier holds the pointer 0 and now reads a read-only struct: the
  nested \<open>Ensure\<close> requires a new transaction and opens one (its calls start with
  \<^verbatim>\<open>BeginTx\<close>, and the database sees two of them), so the \<open>Wrap\<close> around it is not
  the \<open>Wrap\<close> around the work alone.
\<close>

theorem nested_Ensure_reopens_counterexample:
  "example_mem 6 = example_mem 0
   \<and> NewTransactionRequired (example_mem(0 := \<lparr>Isolation = 0, ReadOnly = True\<rparr>))
        \<lparr>Tx = Some 0, Opts = Some 0\<rparr> (Some 6)
   \<and> Ensure counting_db 1 (Some 6) checkTxExists
        \<lparr>ctxs = [emptyCtx, valueCtx 0 ctxKey (current_val \<lparr>Tx = Some 0, Opts = Some 0\<rparr>)],
         mem = example_mem(0 := \<lparr>Isolation = 0, ReadOnly = True\<rparr>),
         outside = [''BeginTx'']\<rparr>
     = ((Returned None, [CallBeginTx 1 (Some 6), CallWork 2, CallCommit 1]),
        \<lparr>ctxs = [emptyCtx, valueCtx 0 ctxKey (current_val \<lparr>Tx = Some 0, Opts = Some 0\<rparr>),
                 valueCtx 1 ctxKey (current_val \<lparr>Tx = Some 1, Opts = Some 6\<rparr>)],
         mem = example_mem(0 := \<lparr>Isolation = 0, ReadOnly = True\<rparr>),
         outside = [''BeginTx'', ''BeginTx'', ''Commit'']\<rparr>)
   \<and> Wrap counting_db 0 (Some 0)
        (set_ReadOnly_then 0 (Ensure_as_work counting_db (Some 6) checkTxExists)) background_world
     = ((Returned None, [CallBeginTx 0 (Some 0), CallWork 1, CallCommit 0]),
        \<lparr>ctxs = [emptyCtx, valueCtx 0 ctxKey (current_val \<lparr>Tx = Some 0, Opts = Some 0\<rparr>),
                 valueCtx 1 ctxKey (current_val \<lparr>Tx = Some 1, Opts = Some 6\<rparr>)],
         mem = example_mem(0 := \<lparr>Isolation = 0, ReadOnly = True\<rparr>),
         outside = [''BeginTx'', ''BeginTx'', ''Commit'', ''Commit'']\<rparr>)
   \<and> Wrap counting_db 0 (Some 0)
        (set_ReadOnly_then 0 (Ensure_as_work counting_db (Some 6) checkTxExists)) background_world
     \<noteq> Wrap counting_db 0 (Some 0) (set_ReadOnly_then 0 checkTxExists) background_world"
  by (simp add: Wrap_def Wrap_deferred_def Ensure_def Ensure_as_work_def set_ReadOnly_then_def
      counting_db_def background_world_def example_mem_def txx_ReadOnly_def Set_def WithValue_def
      checkTxExists_def Get_def Value.simps IsValid_def NewTransactionRequired_def)

text \<open>
  Claim C10, amended. For every pointer \<open>opts\<close> (nil included), every transaction
  and every memory, the carrier that \<open>Wrap\<close> installs with \<open>Set\<close> holds the
  transaction and the pointer, and it does not require a new transaction for that
  pointer. So an \<open>Ensure\<close> on the child context that requests the same pointer
  only calls its work, and so does one that requests another pointer whose struct, at
  the time of the call, equals the struct the carrier points to. As the work of a
  \<open>Wrap\<close> or of an \<open>Ensure\<close> with the same pointer, an \<open>Ensure\<close> behaves as
  its own work does; and every valid carrier can be reused for the pointer it holds.
\<close>

theorem nested_Ensure_reuses:
  assumes "Set ctx (Some tx) opts h = (child, h')" and "ctxs w = h'"
  shows "Get h' child = \<lparr>Tx = Some tx, Opts = opts\<rparr>
       \<and> \<not> NewTransactionRequired m (Get h' child) opts
       \<and> Ensure db child opts g w = ((fst (g child w), [CallWork child]), snd (g child w))
       \<and> (opts = Some p \<and> mem w q = mem w p \<longrightarrow>
            Ensure db child (Some q) g w = ((fst (g child w), [CallWork child]), snd (g child w)))
       \<and> Wrap db ctx opts (Ensure_as_work db opts g) w0 = Wrap db ctx opts g w0
       \<and> Ensure db ctx opts (Ensure_as_work db opts g) w0 = Ensure db ctx opts g w0
       \<and> (IsValid c \<longrightarrow> \<not> NewTransactionRequired m c (Opts c))"
proof -
  have carrier: "Get (ctxs w) child = \<lparr>Tx = Some tx, Opts = opts\<rparr>"
    using Get_Set_new [OF assms(1)] assms(2) by simp
  have n: "\<not> NewTransactionRequired (mem w) (Get (ctxs w) child) opts"
    using installed_carrier_reusable [OF assms(1)] assms(2) by simp
  have other: "Ensure db child (Some q) g w = ((fst (g child w), [CallWork child]), snd (g child w))"
    if "opts = Some p" and "mem w q = mem w p"
  proof -
    have "\<not> NewTransactionRequired (mem w) (Get (ctxs w) child) (Some q)"
      using that carrier
        NewTransactionRequired_equal_struct [of "\<lparr>Tx = Some tx, Opts = opts\<rparr>" p "mem w" q]
      by (simp add: IsValid_def)
    then show ?thesis by (rule Ensure_no_new_transaction)
  qed
  show ?thesis
    using Get_Set_new [OF assms(1)] installed_carrier_reusable [OF assms(1), of m]
      Ensure_no_new_transaction [OF n, of db g] other
      Wrap_nested_Ensure [of db ctx opts g w0] Ensure_nested_Ensure [of db ctx opts g w0]
      NewTransactionRequired_own_options [of c m]
    by blast
qed

theorem nested_Ensure_reuses_witness:
  "Set 0 (Some 5) (Some 0) [emptyCtx]
     = (1, [emptyCtx, valueCtx 0 ctxKey (current_val \<lparr>Tx = Some 5, Opts = Some 0\<rparr>)])
   \<and> (example_mem(0 := txx_ReadOnly)) 4 = (example_mem(0 := txx_ReadOnly)) 0
   \<and> IsValid \<lparr>Tx = Some 5, Opts = Some 0\<rparr>
   \<and> \<not> NewTransactionRequired (example_mem(0 := txx_ReadOnly)) \<lparr>Tx = Some 5, Opts = Some 0\<rparr> (Some 0)
   \<and> Ensure counting_db 1 (Some 0) (checkTxEquals (Some 5))
        \<lparr>ctxs = [emptyCtx, valueCtx 0 ctxKey (current_val \<lparr>Tx = Some 5, Opts = Some 0\<rparr>)],
         mem = example_mem(0 := txx_ReadOnly), outside = [''BeginTx'']\<rparr>
     = ((Returned None, [CallWork 1]),
        \<lparr>ctxs = [emptyCtx, valueCtx 0 ctxKey (current_val \<lparr>Tx = Some 5, Opts = Some 0\<rparr>)],
         mem = example_mem(0 := txx_ReadOnly), outside = [''BeginTx'']\<rparr>)
   \<and> Ensure counting_db 1 (Some 4) (checkTxEquals (Some 5))
        \<lparr>ctxs = [emptyCtx, valueCtx 0 ctxKey (current_val \<lparr>Tx = Some 5, Opts = Some 0\<rparr>)],
         mem = example_mem(0 := txx_ReadOnly), outside = [''BeginTx'']\<rparr>
     = ((Returned None, [CallWork 1]),
        \<lparr>ctxs = [emptyCtx, valueCtx 0 ctxKey (current_val \<lparr>Tx = Some 5, Opts = Some 0\<rparr>)],
         mem = example_mem(0 := txx_ReadOnly), outside = [''BeginTx'']\<rparr>)
   \<and> Wrap counting_db 0 (Some 0)
        (Ensure_as_work counting_db (Some 0) (set_ReadOnly_then 0 checkTxExists)) background_world
     = ((Returned None, [CallBeginTx 0 (Some 0), CallWork 1, CallCommit 0]),
        \<lparr>ctxs = [emptyCtx, valueCtx 0 ctxKey (current_val \<lparr>Tx = Some 0, Opts = Some 0\<rparr>)],
         mem = example_mem(0 := \<lparr>Isolation = 0, ReadOnly = True\<rparr>),
         outside = [''BeginTx'', ''Commit'']\<rparr>)"
proof -
  let ?h' = "[emptyCtx, valueCtx 0 ctxKey (current_val \<lparr>Tx = Some 5, Opts = Some 0\<rparr>)]"
  let ?m = "example_mem(0 := txx_ReadOnly)"
  let ?w = "\<lparr>ctxs = ?h', mem = ?m, outside = [''BeginTx'']\<rparr>"
  have s: "Set 0 (Some 5) (Some 0) [emptyCtx] = (1, ?h')"
    by (simp add: Set_def WithValue_def)
  have c: "ctxs ?w = ?h'" by simp
  have e: "?m 4 = ?m 0"
    by (simp add: example_mem_def)
  have e': "mem ?w 4 = mem ?w 0"
    using e by simp
  have v: "IsValid \<lparr>Tx = Some 5, Opts = Some 0\<rparr>"
    by (simp add: IsValid_def)
  have f: "checkTxEquals (Some 5) 1 ?w = (Returned None, ?w)"
    by (simp add: checkTxEquals_def Get_def Value.simps)
  note t = nested_Ensure_reuses [OF s c, where db = counting_db and g = "checkTxEquals (Some 5)"
      and m = ?m and c = "\<lparr>Tx = Some 5, Opts = Some 0\<rparr>" and p = 0 and q = 4]
  have n: "\<not> NewTransactionRequired ?m \<lparr>Tx = Some 5, Opts = Some 0\<rparr> (Some 0)"
    using t v by simp
  have same: "Ensure counting_db 1 (Some 0) (checkTxEquals (Some 5)) ?w = ((Returned None, [CallWork 1]), ?w)"
    using t f by simp
  have other: "Ensure counting_db 1 (Some 4) (checkTxEquals (Some 5)) ?w = ((Returned None, [CallWork 1]), ?w)"
    using t e' f by simp
  have s0: "Set 0 (Some 0) (Some 0) [emptyCtx]
      = (1, [emptyCtx, valueCtx 0 ctxKey (current_val \<lparr>Tx = Some 0, Opts = Some 0\<rparr>)])"
    by (simp add: Set_def WithValue_def)
  have c0: "ctxs \<lparr>ctxs = [emptyCtx, valueCtx 0 ctxKey (current_val \<lparr>Tx = Some 0, Opts = Some 0\<rparr>)],
        mem = example_mem, outside = [''BeginTx'']\<rparr>
      = [emptyCtx, valueCtx 0 ctxKey (current_val \<lparr>Tx = Some 0, Opts = Some 0\<rparr>)]"
    by simp
  have direct: "Wrap counting_db 0 (Some 0) (set_ReadOnly_then 0 checkTxExists) background_world
      = ((Returned None, [CallBeginTx 0 (Some 0), CallWork 1, CallCommit 0]),
         \<lparr>ctxs = [emptyCtx, valueCtx 0 ctxKey (current_val \<lparr>Tx = Some 0, Opts = Some 0\<rparr>)],
          mem = example_mem(0 := \<lparr>Isolation = 0, ReadOnly = True\<rparr>),
          outside = [''BeginTx'', ''Commit'']\<rparr>)"
    by (simp add: Wrap_def Wrap_deferred_def set_ReadOnly_then_def counting_db_def
        background_world_def example_mem_def Set_def WithValue_def checkTxExists_def Get_def
        Value.simps IsValid_def)
  have nested: "Wrap counting_db 0 (Some 0)
        (Ensure_as_work counting_db (Some 0) (set_ReadOnly_then 0 checkTxExists)) background_world
      = Wrap counting_db 0 (Some 0) (set_ReadOnly_then 0 checkTxExists) background_world"
    using nested_Ensure_reuses [OF s0 c0, where db = counting_db
        and g = "set_ReadOnly_then 0 checkTxExists" and ?w0.0 = background_world]
    by blast
  from s e v n same other nested direct show ?thesis
    by (simp del: One_nat_def)
qed

end
